theory Spec2Isabelle
  imports Main
begin

section \<open>The exception abstract domain of ikos (core/domain/exception/exception.hpp)\<close>

text \<open>
  \<^verbatim>\<open>ExceptionDomain< UnderlyingDomain >\<close> is a class template: a triple of values of the
  underlying abstract domain, with the lattice operations and the exception transfer
  functions written member by member. Every method that mutates the receiver is modelled
  by a function that takes the receiver and returns it updated, one record update for each
  statement of the method's body, in the order of the source.
\<close>

subsection \<open>The template parameter\<close>

text \<open>
  The class \<^verbatim>\<open>UnderlyingDomain\<close> is a template parameter; the operations that
  \<^verbatim>\<open>ExceptionDomain\<close> calls on it are taken as a record of functions over the type
  \<open>'v\<close> of its values. A \<^verbatim>\<open>void\<close> method of the underlying domain that mutates its
  receiver is a function from the receiver (and the other arguments) to the new receiver.
  \<open>'t\<close> is the type of the \<^verbatim>\<open>Threshold\<close> template parameter of
  \<^verbatim>\<open>widen_threshold_with\<close>.
\<close>

record ('v, 't) underlying =
  u_top :: "'v"
  u_bottom :: "'v"
  u_is_bottom :: "'v \<Rightarrow> bool"
  u_is_top :: "'v \<Rightarrow> bool"
  u_set_to_bottom :: "'v \<Rightarrow> 'v"
  u_set_to_top :: "'v \<Rightarrow> 'v"
  u_leq :: "'v \<Rightarrow> 'v \<Rightarrow> bool"
  u_equals :: "'v \<Rightarrow> 'v \<Rightarrow> bool"
  u_join_with :: "'v \<Rightarrow> 'v \<Rightarrow> 'v"
  u_join_loop_with :: "'v \<Rightarrow> 'v \<Rightarrow> 'v"
  u_join_iter_with :: "'v \<Rightarrow> 'v \<Rightarrow> 'v"
  u_widen_with :: "'v \<Rightarrow> 'v \<Rightarrow> 'v"
  u_widen_threshold_with :: "'v \<Rightarrow> 'v \<Rightarrow> 't \<Rightarrow> 'v"
  u_meet_with :: "'v \<Rightarrow> 'v \<Rightarrow> 'v"
  u_narrow_with :: "'v \<Rightarrow> 'v \<Rightarrow> 'v"

subsection \<open>The data members\<close>

text \<open>
  The three private members \<^verbatim>\<open>_normal\<close>, \<^verbatim>\<open>_caught_exceptions\<close> and
  \<^verbatim>\<open>_propagated_exceptions\<close> (a name cannot start with an underscore here, so the
  member \<^verbatim>\<open>_x\<close> is the field \<open>m_x\<close>).
\<close>

record 'v exception_domain =
  m_normal :: "'v"
  m_caught_exceptions :: "'v"
  m_propagated_exceptions :: "'v"

subsection \<open>Constructors\<close>

definition ExceptionDomain_TopTag :: "('v, 't) underlying \<Rightarrow> 'v exception_domain" where
  "ExceptionDomain_TopTag U =
     \<lparr>m_normal = u_top U, m_caught_exceptions = u_top U, m_propagated_exceptions = u_top U\<rparr>"

definition ExceptionDomain_TopNoExceptionsTag :: "('v, 't) underlying \<Rightarrow> 'v exception_domain" where
  "ExceptionDomain_TopNoExceptionsTag U =
     \<lparr>m_normal = u_top U, m_caught_exceptions = u_bottom U,
      m_propagated_exceptions = u_bottom U\<rparr>"

definition ExceptionDomain_BottomTag :: "('v, 't) underlying \<Rightarrow> 'v exception_domain" where
  "ExceptionDomain_BottomTag U =
     \<lparr>m_normal = u_bottom U, m_caught_exceptions = u_bottom U,
      m_propagated_exceptions = u_bottom U\<rparr>"

text \<open>The default constructor delegates to the \<^verbatim>\<open>TopTag\<close> constructor.\<close>

definition ExceptionDomain_default :: "('v, 't) underlying \<Rightarrow> 'v exception_domain" where
  "ExceptionDomain_default U = ExceptionDomain_TopTag U"

text \<open>The constructor from three underlying values.\<close>

definition ExceptionDomain :: "'v \<Rightarrow> 'v \<Rightarrow> 'v \<Rightarrow> 'v exception_domain" where
  "ExceptionDomain normal caught_exceptions propagated_exceptions =
     \<lparr>m_normal = normal, m_caught_exceptions = caught_exceptions,
      m_propagated_exceptions = propagated_exceptions\<rparr>"

text \<open>
  The static factories. \<^verbatim>\<open>top\<close> is written \<open>top_dom\<close>: \<open>top\<close> is a constant of HOL.
\<close>

definition top_dom :: "('v, 't) underlying \<Rightarrow> 'v exception_domain" where
  "top_dom U = ExceptionDomain_TopTag U"

definition top_no_exceptions :: "('v, 't) underlying \<Rightarrow> 'v exception_domain" where
  "top_no_exceptions U = ExceptionDomain_TopNoExceptionsTag U"

definition bottom :: "('v, 't) underlying \<Rightarrow> 'v exception_domain" where
  "bottom U = ExceptionDomain_BottomTag U"

subsection \<open>Lattice predicates and operations\<close>

definition is_bottom :: "('v, 't) underlying \<Rightarrow> 'v exception_domain \<Rightarrow> bool" where
  "is_bottom U d \<longleftrightarrow>
     u_is_bottom U (m_normal d) \<and> u_is_bottom U (m_caught_exceptions d) \<and>
     u_is_bottom U (m_propagated_exceptions d)"

definition is_top :: "('v, 't) underlying \<Rightarrow> 'v exception_domain \<Rightarrow> bool" where
  "is_top U d \<longleftrightarrow>
     u_is_top U (m_normal d) \<and> u_is_top U (m_caught_exceptions d) \<and>
     u_is_top U (m_propagated_exceptions d)"

definition set_to_bottom :: "('v, 't) underlying \<Rightarrow> 'v exception_domain \<Rightarrow> 'v exception_domain" where
  "set_to_bottom U d =
     (let d1 = d\<lparr>m_normal := u_set_to_bottom U (m_normal d)\<rparr>;
          d2 = d1\<lparr>m_caught_exceptions := u_set_to_bottom U (m_caught_exceptions d1)\<rparr>;
          d3 = d2\<lparr>m_propagated_exceptions := u_set_to_bottom U (m_propagated_exceptions d2)\<rparr>
      in d3)"

definition set_to_top :: "('v, 't) underlying \<Rightarrow> 'v exception_domain \<Rightarrow> 'v exception_domain" where
  "set_to_top U d =
     (let d1 = d\<lparr>m_normal := u_set_to_top U (m_normal d)\<rparr>;
          d2 = d1\<lparr>m_caught_exceptions := u_set_to_top U (m_caught_exceptions d1)\<rparr>;
          d3 = d2\<lparr>m_propagated_exceptions := u_set_to_top U (m_propagated_exceptions d2)\<rparr>
      in d3)"

definition leq :: "('v, 't) underlying \<Rightarrow> 'v exception_domain \<Rightarrow> 'v exception_domain \<Rightarrow> bool" where
  "leq U d other \<longleftrightarrow>
     u_leq U (m_normal d) (m_normal other) \<and>
     u_leq U (m_caught_exceptions d) (m_caught_exceptions other) \<and>
     u_leq U (m_propagated_exceptions d) (m_propagated_exceptions other)"

definition equals :: "('v, 't) underlying \<Rightarrow> 'v exception_domain \<Rightarrow> 'v exception_domain \<Rightarrow> bool" where
  "equals U d other \<longleftrightarrow>
     u_equals U (m_normal d) (m_normal other) \<and>
     u_equals U (m_caught_exceptions d) (m_caught_exceptions other) \<and>
     u_equals U (m_propagated_exceptions d) (m_propagated_exceptions other)"

text \<open>
  The binary operations share one shape: the underlying operation on \<^verbatim>\<open>_normal\<close>, then
  on \<^verbatim>\<open>_caught_exceptions\<close>, then on \<^verbatim>\<open>_propagated_exceptions\<close>, each with the same
  member of \<^verbatim>\<open>other\<close>. Each of them is still written out, as the source does.
\<close>

definition join_with ::
  "('v, 't) underlying \<Rightarrow> 'v exception_domain \<Rightarrow> 'v exception_domain \<Rightarrow> 'v exception_domain" where
  "join_with U d other =
     (let d1 = d\<lparr>m_normal := u_join_with U (m_normal d) (m_normal other)\<rparr>;
          d2 = d1\<lparr>m_caught_exceptions :=
                 u_join_with U (m_caught_exceptions d1) (m_caught_exceptions other)\<rparr>;
          d3 = d2\<lparr>m_propagated_exceptions :=
                 u_join_with U (m_propagated_exceptions d2) (m_propagated_exceptions other)\<rparr>
      in d3)"

definition join_loop_with ::
  "('v, 't) underlying \<Rightarrow> 'v exception_domain \<Rightarrow> 'v exception_domain \<Rightarrow> 'v exception_domain" where
  "join_loop_with U d other =
     (let d1 = d\<lparr>m_normal := u_join_loop_with U (m_normal d) (m_normal other)\<rparr>;
          d2 = d1\<lparr>m_caught_exceptions :=
                 u_join_loop_with U (m_caught_exceptions d1) (m_caught_exceptions other)\<rparr>;
          d3 = d2\<lparr>m_propagated_exceptions :=
                 u_join_loop_with U (m_propagated_exceptions d2) (m_propagated_exceptions other)\<rparr>
      in d3)"

definition join_iter_with ::
  "('v, 't) underlying \<Rightarrow> 'v exception_domain \<Rightarrow> 'v exception_domain \<Rightarrow> 'v exception_domain" where
  "join_iter_with U d other =
     (let d1 = d\<lparr>m_normal := u_join_iter_with U (m_normal d) (m_normal other)\<rparr>;
          d2 = d1\<lparr>m_caught_exceptions :=
                 u_join_iter_with U (m_caught_exceptions d1) (m_caught_exceptions other)\<rparr>;
          d3 = d2\<lparr>m_propagated_exceptions :=
                 u_join_iter_with U (m_propagated_exceptions d2) (m_propagated_exceptions other)\<rparr>
      in d3)"

definition widen_with ::
  "('v, 't) underlying \<Rightarrow> 'v exception_domain \<Rightarrow> 'v exception_domain \<Rightarrow> 'v exception_domain" where
  "widen_with U d other =
     (let d1 = d\<lparr>m_normal := u_widen_with U (m_normal d) (m_normal other)\<rparr>;
          d2 = d1\<lparr>m_caught_exceptions :=
                 u_widen_with U (m_caught_exceptions d1) (m_caught_exceptions other)\<rparr>;
          d3 = d2\<lparr>m_propagated_exceptions :=
                 u_widen_with U (m_propagated_exceptions d2) (m_propagated_exceptions other)\<rparr>
      in d3)"

definition widen_threshold_with ::
  "('v, 't) underlying \<Rightarrow> 'v exception_domain \<Rightarrow> 'v exception_domain \<Rightarrow> 't \<Rightarrow>
   'v exception_domain" where
  "widen_threshold_with U d other threshold =
     (let d1 = d\<lparr>m_normal := u_widen_threshold_with U (m_normal d) (m_normal other) threshold\<rparr>;
          d2 = d1\<lparr>m_caught_exceptions :=
                 u_widen_threshold_with U (m_caught_exceptions d1) (m_caught_exceptions other)
                   threshold\<rparr>;
          d3 = d2\<lparr>m_propagated_exceptions :=
                 u_widen_threshold_with U (m_propagated_exceptions d2)
                   (m_propagated_exceptions other) threshold\<rparr>
      in d3)"

definition meet_with ::
  "('v, 't) underlying \<Rightarrow> 'v exception_domain \<Rightarrow> 'v exception_domain \<Rightarrow> 'v exception_domain" where
  "meet_with U d other =
     (let d1 = d\<lparr>m_normal := u_meet_with U (m_normal d) (m_normal other)\<rparr>;
          d2 = d1\<lparr>m_caught_exceptions :=
                 u_meet_with U (m_caught_exceptions d1) (m_caught_exceptions other)\<rparr>;
          d3 = d2\<lparr>m_propagated_exceptions :=
                 u_meet_with U (m_propagated_exceptions d2) (m_propagated_exceptions other)\<rparr>
      in d3)"

definition narrow_with ::
  "('v, 't) underlying \<Rightarrow> 'v exception_domain \<Rightarrow> 'v exception_domain \<Rightarrow> 'v exception_domain" where
  "narrow_with U d other =
     (let d1 = d\<lparr>m_normal := u_narrow_with U (m_normal d) (m_normal other)\<rparr>;
          d2 = d1\<lparr>m_caught_exceptions :=
                 u_narrow_with U (m_caught_exceptions d1) (m_caught_exceptions other)\<rparr>;
          d3 = d2\<lparr>m_propagated_exceptions :=
                 u_narrow_with U (m_propagated_exceptions d2) (m_propagated_exceptions other)\<rparr>
      in d3)"

subsection \<open>Accessors\<close>

text \<open>
  \<^verbatim>\<open>normal()\<close> and \<^verbatim>\<open>caught_exceptions()\<close> return a reference to the member. The
  non-const \<^verbatim>\<open>propagated_exceptions()\<close> returns an \<^verbatim>\<open>UnderlyingDomain\<close> by value: the
  model returns the value together with the receiver after the call, so that what the call
  does to the receiver is part of its result.
\<close>

definition normal :: "'v exception_domain \<Rightarrow> 'v" where
  "normal d = m_normal d"

definition caught_exceptions :: "'v exception_domain \<Rightarrow> 'v" where
  "caught_exceptions d = m_caught_exceptions d"

definition propagated_exceptions :: "'v exception_domain \<Rightarrow> 'v \<times> 'v exception_domain" where
  "propagated_exceptions d = (m_propagated_exceptions d, d)"

definition propagated_exceptions_const :: "'v exception_domain \<Rightarrow> 'v" where
  "propagated_exceptions_const d = m_propagated_exceptions d"

subsection \<open>Exception transfer functions\<close>

definition merge_propagated_in_caught_exceptions ::
  "('v, 't) underlying \<Rightarrow> 'v exception_domain \<Rightarrow> 'v exception_domain" where
  "merge_propagated_in_caught_exceptions U d =
     (let d1 = d\<lparr>m_caught_exceptions :=
                 u_join_with U (m_caught_exceptions d) (m_propagated_exceptions d)\<rparr>;
          d2 = d1\<lparr>m_propagated_exceptions := u_set_to_bottom U (m_propagated_exceptions d1)\<rparr>
      in d2)"

definition merge_caught_in_propagated_exceptions ::
  "('v, 't) underlying \<Rightarrow> 'v exception_domain \<Rightarrow> 'v exception_domain" where
  "merge_caught_in_propagated_exceptions U d =
     (let d1 = d\<lparr>m_propagated_exceptions :=
                 u_join_with U (m_propagated_exceptions d) (m_caught_exceptions d)\<rparr>;
          d2 = d1\<lparr>m_caught_exceptions := u_set_to_bottom U (m_caught_exceptions d1)\<rparr>
      in d2)"

definition enter_normal :: "('v, 't) underlying \<Rightarrow> 'v exception_domain \<Rightarrow> 'v exception_domain" where
  "enter_normal U d = d\<lparr>m_caught_exceptions := u_set_to_bottom U (m_caught_exceptions d)\<rparr>"

text \<open>\<^verbatim>\<open>std::swap\<close> of the two members is the first update.\<close>

definition enter_catch :: "('v, 't) underlying \<Rightarrow> 'v exception_domain \<Rightarrow> 'v exception_domain" where
  "enter_catch U d =
     (let d1 = d\<lparr>m_normal := m_caught_exceptions d, m_caught_exceptions := m_normal d\<rparr>;
          d2 = d1\<lparr>m_caught_exceptions := u_set_to_bottom U (m_caught_exceptions d1)\<rparr>;
          d3 = d2\<lparr>m_propagated_exceptions := u_set_to_bottom U (m_propagated_exceptions d2)\<rparr>
      in d3)"

definition ignore_exceptions :: "('v, 't) underlying \<Rightarrow> 'v exception_domain \<Rightarrow> 'v exception_domain" where
  "ignore_exceptions U d =
     (let d1 = d\<lparr>m_caught_exceptions := u_set_to_bottom U (m_caught_exceptions d)\<rparr>;
          d2 = d1\<lparr>m_propagated_exceptions := u_set_to_bottom U (m_propagated_exceptions d1)\<rparr>
      in d2)"

definition throw_exception :: "('v, 't) underlying \<Rightarrow> 'v exception_domain \<Rightarrow> 'v exception_domain" where
  "throw_exception U d =
     (let d1 = d\<lparr>m_caught_exceptions := u_join_with U (m_caught_exceptions d) (m_normal d)\<rparr>;
          d2 = d1\<lparr>m_normal := u_set_to_bottom U (m_normal d1)\<rparr>
      in d2)"

definition resume_exception :: "('v, 't) underlying \<Rightarrow> 'v exception_domain \<Rightarrow> 'v exception_domain" where
  "resume_exception U d =
     (let d1 = d\<lparr>m_caught_exceptions := u_join_with U (m_caught_exceptions d) (m_normal d)\<rparr>;
          d2 = d1\<lparr>m_normal := u_set_to_bottom U (m_normal d1)\<rparr>
      in d2)"

subsection \<open>What the lattice operations are meant to be, member by member\<close>

text \<open>
  The specification's reading of a binary lattice operation of the triple, to compare the
  methods above with: the triple of the results of one underlying operation \<open>f\<close> on the
  three pairs of members.
\<close>

definition componentwise ::
  "('v \<Rightarrow> 'v \<Rightarrow> 'v) \<Rightarrow> 'v exception_domain \<Rightarrow> 'v exception_domain \<Rightarrow> 'v exception_domain" where
  "componentwise f d other =
     \<lparr>m_normal = f (m_normal d) (m_normal other),
      m_caught_exceptions = f (m_caught_exceptions d) (m_caught_exceptions other),
      m_propagated_exceptions = f (m_propagated_exceptions d) (m_propagated_exceptions other)\<rparr>"

subsection \<open>The contract of the underlying domain\<close>

text \<open>
  Modelled from the spec: the underlying domains are not part of exception.hpp. Section 4.1
  of the specification lists what an underlying domain provides; the two laws below are the
  ones the properties of the transfer functions rest on. \<^verbatim>\<open>set_to_bottom()\<close> leaves its
  receiver a bottom value.
\<close>

definition set_to_bottom_gives_bottom :: "('v, 't) underlying \<Rightarrow> bool" where
  "set_to_bottom_gives_bottom U \<longleftrightarrow> (\<forall>v. u_is_bottom U (u_set_to_bottom U v))"

text \<open>
  Modelled from the spec: join with bottom is the identity (section 8, scope round-trip),
  in the form the transfer functions use it: a receiver that is bottom, joined with \<open>v\<close>,
  becomes \<open>v\<close>.
\<close>

definition bottom_join_is_identity :: "('v, 't) underlying \<Rightarrow> bool" where
  "bottom_join_is_identity U \<longleftrightarrow> (\<forall>b v. u_is_bottom U b \<longrightarrow> u_join_with U b v = v)"

subsection \<open>The four-element test domain\<close>

text \<open>
  Modelled from the spec: the underlying domain of the testable properties (section 8), which
  is not under src/: the lattice of \<open>Bottom\<close>, \<open>Even\<close>, \<open>Odd\<close> and \<open>Top\<close> with
  \<open>Bottom\<close> below \<open>Even\<close> and \<open>Odd\<close>, both below \<open>Top\<close>, and \<open>Even\<close> and \<open>Odd\<close>
  incomparable.
\<close>

datatype parity = Bottom | Even | Odd | Top

text \<open>Modelled from the spec: the order of the four-element lattice.\<close>

fun parity_leq :: "parity \<Rightarrow> parity \<Rightarrow> bool" where
  "parity_leq Bottom y = True"
| "parity_leq x Top = True"
| "parity_leq Even Even = True"
| "parity_leq Odd Odd = True"
| "parity_leq x y = False"

text \<open>Modelled from the spec: the least upper bound of the four-element lattice.\<close>

fun parity_join :: "parity \<Rightarrow> parity \<Rightarrow> parity" where
  "parity_join Bottom y = y"
| "parity_join x Bottom = x"
| "parity_join x y = (if x = y then x else Top)"

text \<open>Modelled from the spec: the greatest lower bound of the four-element lattice.\<close>

fun parity_meet :: "parity \<Rightarrow> parity \<Rightarrow> parity" where
  "parity_meet Top y = y"
| "parity_meet x Top = x"
| "parity_meet x y = (if x = y then x else Bottom)"

text \<open>
  Modelled from the spec: the operations of section 4.1 for the four-element lattice. The
  lattice has finite height, so widening is the join and narrowing is the meet; the two join
  variants are the join; the threshold (a number here) is not looked at.
\<close>

definition parity_domain :: "(parity, nat) underlying" where
  "parity_domain =
     \<lparr>u_top = Top,
      u_bottom = Bottom,
      u_is_bottom = (\<lambda>v. v = Bottom),
      u_is_top = (\<lambda>v. v = Top),
      u_set_to_bottom = (\<lambda>v. Bottom),
      u_set_to_top = (\<lambda>v. Top),
      u_leq = parity_leq,
      u_equals = (\<lambda>v w. v = w),
      u_join_with = parity_join,
      u_join_loop_with = parity_join,
      u_join_iter_with = parity_join,
      u_widen_with = parity_join,
      u_widen_threshold_with = (\<lambda>v w t. parity_join v w),
      u_meet_with = parity_meet,
      u_narrow_with = parity_meet\<rparr>"

section \<open>Properties\<close>

subsection \<open>The test domain keeps the contract\<close>

lemma parity_set_to_bottom_gives_bottom: "set_to_bottom_gives_bottom parity_domain"
  by (simp add: set_to_bottom_gives_bottom_def parity_domain_def)

lemma parity_bottom_join_is_identity: "bottom_join_is_identity parity_domain"
  by (simp add: bottom_join_is_identity_def parity_domain_def)

subsection \<open>The lattice operations\<close>

text \<open>
  C1: the order and the equality of two triples are the conjunctions of the underlying order
  and equality on the three pairs of members; \<^verbatim>\<open>join_with\<close>, \<^verbatim>\<open>join_loop_with\<close>,
  \<^verbatim>\<open>join_iter_with\<close>, \<^verbatim>\<open>widen_with\<close>, \<^verbatim>\<open>meet_with\<close> and \<^verbatim>\<open>narrow_with\<close> apply the
  underlying operation of the same name to each pair of members; and
  \<^verbatim>\<open>widen_threshold_with\<close> applies the underlying threshold widening to each pair of
  members with the one threshold it was given.
\<close>

theorem lattice_operations_componentwise:
  "leq U d other =
     (u_leq U (m_normal d) (m_normal other) \<and>
      u_leq U (m_caught_exceptions d) (m_caught_exceptions other) \<and>
      u_leq U (m_propagated_exceptions d) (m_propagated_exceptions other))
   \<and> equals U d other =
     (u_equals U (m_normal d) (m_normal other) \<and>
      u_equals U (m_caught_exceptions d) (m_caught_exceptions other) \<and>
      u_equals U (m_propagated_exceptions d) (m_propagated_exceptions other))
   \<and> join_with U d other = componentwise (u_join_with U) d other
   \<and> join_loop_with U d other = componentwise (u_join_loop_with U) d other
   \<and> join_iter_with U d other = componentwise (u_join_iter_with U) d other
   \<and> widen_with U d other = componentwise (u_widen_with U) d other
   \<and> meet_with U d other = componentwise (u_meet_with U) d other
   \<and> narrow_with U d other = componentwise (u_narrow_with U) d other
   \<and> widen_threshold_with U d other threshold =
       componentwise (\<lambda>v w. u_widen_threshold_with U v w threshold) d other"
proof -
  have "leq U d other =
     (u_leq U (m_normal d) (m_normal other) \<and>
      u_leq U (m_caught_exceptions d) (m_caught_exceptions other) \<and>
      u_leq U (m_propagated_exceptions d) (m_propagated_exceptions other))"
    by (simp add: leq_def)
  moreover have "equals U d other =
     (u_equals U (m_normal d) (m_normal other) \<and>
      u_equals U (m_caught_exceptions d) (m_caught_exceptions other) \<and>
      u_equals U (m_propagated_exceptions d) (m_propagated_exceptions other))"
    by (simp add: equals_def)
  moreover have "join_with U d other = componentwise (u_join_with U) d other"
    by (simp add: join_with_def componentwise_def Let_def)
  moreover have "join_loop_with U d other = componentwise (u_join_loop_with U) d other"
    by (simp add: join_loop_with_def componentwise_def Let_def)
  moreover have "join_iter_with U d other = componentwise (u_join_iter_with U) d other"
    by (simp add: join_iter_with_def componentwise_def Let_def)
  moreover have "widen_with U d other = componentwise (u_widen_with U) d other"
    by (simp add: widen_with_def componentwise_def Let_def)
  moreover have "meet_with U d other = componentwise (u_meet_with U) d other"
    by (simp add: meet_with_def componentwise_def Let_def)
  moreover have "narrow_with U d other = componentwise (u_narrow_with U) d other"
    by (simp add: narrow_with_def componentwise_def Let_def)
  moreover have "widen_threshold_with U d other threshold =
       componentwise (\<lambda>v w. u_widen_threshold_with U v w threshold) d other"
    by (simp add: widen_threshold_with_def componentwise_def Let_def)
  ultimately show ?thesis by blast
qed


text \<open>
  C2: \<^verbatim>\<open>is_bottom()\<close> is true exactly when the three members are bottom for the underlying
  domain, and \<^verbatim>\<open>is_top()\<close> is true exactly when the three members are top for the
  underlying domain.
\<close>

theorem is_bottom_is_top_all_components:
  "is_bottom U d =
     (u_is_bottom U (m_normal d) \<and> u_is_bottom U (m_caught_exceptions d) \<and>
      u_is_bottom U (m_propagated_exceptions d))
   \<and> is_top U d =
     (u_is_top U (m_normal d) \<and> u_is_top U (m_caught_exceptions d) \<and>
      u_is_top U (m_propagated_exceptions d))"
  by (simp add: is_bottom_def is_top_def)

subsection \<open>The transfer functions\<close>

text \<open>
  C3: \<^verbatim>\<open>throw_exception()\<close> makes \<^verbatim>\<open>_caught_exceptions\<close> the join of the old
  \<^verbatim>\<open>_caught_exceptions\<close> (the receiver of the join) with the old \<^verbatim>\<open>_normal\<close>, sets
  \<^verbatim>\<open>_normal\<close> to bottom (the underlying \<^verbatim>\<open>set_to_bottom\<close> is called on it, so it is a
  bottom value for every underlying domain whose \<^verbatim>\<open>set_to_bottom\<close> gives one) and leaves
  \<^verbatim>\<open>_propagated_exceptions\<close> as it was. On the test domain, from normal \<open>Even\<close> and
  caught \<open>Bottom\<close> (and any propagated \<open>p\<close>) the normal member becomes bottom and the
  caught member becomes \<open>Even\<close>.
\<close>

theorem throw_exception_effect:
  "m_caught_exceptions (throw_exception U d) =
     u_join_with U (m_caught_exceptions d) (m_normal d)
   \<and> m_normal (throw_exception U d) = u_set_to_bottom U (m_normal d)
   \<and> m_propagated_exceptions (throw_exception U d) = m_propagated_exceptions d
   \<and> (set_to_bottom_gives_bottom U \<longrightarrow> u_is_bottom U (m_normal (throw_exception U d)))
   \<and> u_is_bottom parity_domain
         (m_normal (throw_exception parity_domain (ExceptionDomain Even Bottom p)))
   \<and> m_caught_exceptions (throw_exception parity_domain (ExceptionDomain Even Bottom p)) = Even"
proof -
  have general: "m_caught_exceptions (throw_exception U d) =
       u_join_with U (m_caught_exceptions d) (m_normal d)
     \<and> m_normal (throw_exception U d) = u_set_to_bottom U (m_normal d)
     \<and> m_propagated_exceptions (throw_exception U d) = m_propagated_exceptions d"
    by (simp add: throw_exception_def Let_def)
  have contract: "set_to_bottom_gives_bottom U \<longrightarrow>
      u_is_bottom U (m_normal (throw_exception U d))"
    by (simp add: throw_exception_def Let_def set_to_bottom_gives_bottom_def)
  have test: "u_is_bottom parity_domain
         (m_normal (throw_exception parity_domain (ExceptionDomain Even Bottom p)))
     \<and> m_caught_exceptions (throw_exception parity_domain (ExceptionDomain Even Bottom p)) = Even"
    by (simp add: throw_exception_def Let_def ExceptionDomain_def parity_domain_def)
  from general contract test show ?thesis by blast
qed

theorem throw_exception_effect_witness:
  "set_to_bottom_gives_bottom parity_domain
   \<and> u_is_bottom parity_domain
        (m_normal (throw_exception parity_domain (ExceptionDomain Odd Even Top)))
   \<and> m_caught_exceptions (throw_exception parity_domain (ExceptionDomain Odd Even Top)) = Top
   \<and> m_propagated_exceptions (throw_exception parity_domain (ExceptionDomain Odd Even Top)) = Top"
proof -
  have h: "set_to_bottom_gives_bottom parity_domain"
    by (rule parity_set_to_bottom_gives_bottom)
  have j: "u_join_with parity_domain
             (m_caught_exceptions (ExceptionDomain Odd Even Top))
             (m_normal (ExceptionDomain Odd Even Top)) = Top"
    by (simp add: parity_domain_def ExceptionDomain_def)
  have p: "m_propagated_exceptions (ExceptionDomain Odd Even Top) = Top"
    by (simp add: ExceptionDomain_def)
  note t = throw_exception_effect [of parity_domain "ExceptionDomain Odd Even Top"]
  from t h have n: "u_is_bottom parity_domain
      (m_normal (throw_exception parity_domain (ExceptionDomain Odd Even Top)))"
    by blast
  from t j have c:
    "m_caught_exceptions (throw_exception parity_domain (ExceptionDomain Odd Even Top)) = Top"
    by (simp only:)
  from t p have q:
    "m_propagated_exceptions (throw_exception parity_domain (ExceptionDomain Odd Even Top)) = Top"
    by (simp only:)
  from h n c q show ?thesis by blast
qed

text \<open>
  C4: \<^verbatim>\<open>enter_catch()\<close> makes \<^verbatim>\<open>_normal\<close> the old \<^verbatim>\<open>_caught_exceptions\<close>; the old
  \<^verbatim>\<open>_normal\<close> goes to \<^verbatim>\<open>_caught_exceptions\<close> by the swap and is set to bottom there,
  and \<^verbatim>\<open>_propagated_exceptions\<close> is set to bottom (bottom values for every underlying
  domain whose \<^verbatim>\<open>set_to_bottom\<close> gives one). On the test domain, from normal \<open>Odd\<close>
  and caught \<open>Even\<close> (and any propagated \<open>p\<close>) the normal member becomes \<open>Even\<close> and the
  two others become bottom.
\<close>

theorem enter_catch_effect:
  "m_normal (enter_catch U d) = m_caught_exceptions d
   \<and> m_caught_exceptions (enter_catch U d) = u_set_to_bottom U (m_normal d)
   \<and> m_propagated_exceptions (enter_catch U d) = u_set_to_bottom U (m_propagated_exceptions d)
   \<and> (set_to_bottom_gives_bottom U \<longrightarrow>
        u_is_bottom U (m_caught_exceptions (enter_catch U d)) \<and>
        u_is_bottom U (m_propagated_exceptions (enter_catch U d)))
   \<and> m_normal (enter_catch parity_domain (ExceptionDomain Odd Even p)) = Even
   \<and> u_is_bottom parity_domain
        (m_caught_exceptions (enter_catch parity_domain (ExceptionDomain Odd Even p)))
   \<and> u_is_bottom parity_domain
        (m_propagated_exceptions (enter_catch parity_domain (ExceptionDomain Odd Even p)))"
proof -
  have general: "m_normal (enter_catch U d) = m_caught_exceptions d
     \<and> m_caught_exceptions (enter_catch U d) = u_set_to_bottom U (m_normal d)
     \<and> m_propagated_exceptions (enter_catch U d) =
         u_set_to_bottom U (m_propagated_exceptions d)"
    by (simp add: enter_catch_def Let_def)
  have contract: "set_to_bottom_gives_bottom U \<longrightarrow>
        u_is_bottom U (m_caught_exceptions (enter_catch U d)) \<and>
        u_is_bottom U (m_propagated_exceptions (enter_catch U d))"
    by (simp add: enter_catch_def Let_def set_to_bottom_gives_bottom_def)
  have test: "m_normal (enter_catch parity_domain (ExceptionDomain Odd Even p)) = Even
     \<and> u_is_bottom parity_domain
          (m_caught_exceptions (enter_catch parity_domain (ExceptionDomain Odd Even p)))
     \<and> u_is_bottom parity_domain
          (m_propagated_exceptions (enter_catch parity_domain (ExceptionDomain Odd Even p)))"
    by (simp add: enter_catch_def Let_def ExceptionDomain_def parity_domain_def)
  from general contract test show ?thesis by blast
qed

theorem enter_catch_effect_witness:
  "set_to_bottom_gives_bottom parity_domain
   \<and> m_normal (enter_catch parity_domain (ExceptionDomain Top Odd Even)) = Odd
   \<and> u_is_bottom parity_domain
        (m_caught_exceptions (enter_catch parity_domain (ExceptionDomain Top Odd Even)))
   \<and> u_is_bottom parity_domain
        (m_propagated_exceptions (enter_catch parity_domain (ExceptionDomain Top Odd Even)))"
proof -
  have h: "set_to_bottom_gives_bottom parity_domain"
    by (rule parity_set_to_bottom_gives_bottom)
  have c: "m_caught_exceptions (ExceptionDomain Top Odd Even) = Odd"
    by (simp add: ExceptionDomain_def)
  note t = enter_catch_effect [of parity_domain "ExceptionDomain Top Odd Even"]
  from t c have n:
    "m_normal (enter_catch parity_domain (ExceptionDomain Top Odd Even)) = Odd"
    by (simp only:)
  from t h have b:
    "u_is_bottom parity_domain
       (m_caught_exceptions (enter_catch parity_domain (ExceptionDomain Top Odd Even)))
     \<and> u_is_bottom parity_domain
       (m_propagated_exceptions (enter_catch parity_domain (ExceptionDomain Top Odd Even)))"
    by blast
  from h n b show ?thesis by blast
qed

text \<open>
  C5: \<^verbatim>\<open>resume_exception()\<close> and \<^verbatim>\<open>throw_exception()\<close> are the same transformation:
  on the same underlying domain and the same receiver they give the same triple.
\<close>

theorem resume_exception_is_throw_exception:
  "resume_exception U d = throw_exception U d"
  by (simp add: resume_exception_def throw_exception_def)

text \<open>
  C7: for a receiver whose \<^verbatim>\<open>_propagated_exceptions\<close> is bottom, over an underlying
  domain where a bottom receiver joined with \<open>v\<close> becomes \<open>v\<close> (and where
  \<^verbatim>\<open>set_to_bottom\<close> gives a bottom value), \<^verbatim>\<open>merge_caught_in_propagated_exceptions()\<close>
  followed by \<^verbatim>\<open>merge_propagated_in_caught_exceptions()\<close> gives back the caught member
  it started from and leaves the propagated member bottom; the normal member is not touched.
\<close>

theorem scope_round_trip:
  assumes "u_is_bottom U (m_propagated_exceptions d)"
    and "bottom_join_is_identity U"
    and "set_to_bottom_gives_bottom U"
  shows "m_caught_exceptions
           (merge_propagated_in_caught_exceptions U
             (merge_caught_in_propagated_exceptions U d)) = m_caught_exceptions d
         \<and> u_is_bottom U
             (m_propagated_exceptions
               (merge_propagated_in_caught_exceptions U
                 (merge_caught_in_propagated_exceptions U d)))
         \<and> m_normal
             (merge_propagated_in_caught_exceptions U
               (merge_caught_in_propagated_exceptions U d)) = m_normal d"
proof -
  let ?c = "m_caught_exceptions d"
  let ?p = "m_propagated_exceptions d"
  from assms(2) have join: "\<And>b v. u_is_bottom U b \<Longrightarrow> u_join_with U b v = v"
    by (simp add: bottom_join_is_identity_def)
  from assms(3) have bot: "\<And>v. u_is_bottom U (u_set_to_bottom U v)"
    by (simp add: set_to_bottom_gives_bottom_def)
  have first: "merge_caught_in_propagated_exceptions U d =
      d\<lparr>m_propagated_exceptions := ?c, m_caught_exceptions := u_set_to_bottom U ?c\<rparr>"
    using join [OF assms(1)] by (simp add: merge_caught_in_propagated_exceptions_def Let_def)
  have second: "merge_propagated_in_caught_exceptions U
        (merge_caught_in_propagated_exceptions U d) =
      d\<lparr>m_caught_exceptions := ?c, m_propagated_exceptions := u_set_to_bottom U ?c\<rparr>"
    using join [OF bot]
    by (simp add: first merge_propagated_in_caught_exceptions_def Let_def)
  show ?thesis
    using bot by (simp add: second)
qed

theorem scope_round_trip_witness:
  "u_is_bottom parity_domain (m_propagated_exceptions (ExceptionDomain Odd Even Bottom))
   \<and> bottom_join_is_identity parity_domain
   \<and> set_to_bottom_gives_bottom parity_domain
   \<and> m_caught_exceptions
       (merge_propagated_in_caught_exceptions parity_domain
         (merge_caught_in_propagated_exceptions parity_domain
           (ExceptionDomain Odd Even Bottom))) = Even
   \<and> u_is_bottom parity_domain
       (m_propagated_exceptions
         (merge_propagated_in_caught_exceptions parity_domain
           (merge_caught_in_propagated_exceptions parity_domain
             (ExceptionDomain Odd Even Bottom))))"
proof -
  have h1: "u_is_bottom parity_domain (m_propagated_exceptions (ExceptionDomain Odd Even Bottom))"
    by (simp add: parity_domain_def ExceptionDomain_def)
  have h2: "bottom_join_is_identity parity_domain"
    by (rule parity_bottom_join_is_identity)
  have h3: "set_to_bottom_gives_bottom parity_domain"
    by (rule parity_set_to_bottom_gives_bottom)
  have c: "m_caught_exceptions (ExceptionDomain Odd Even Bottom) = Even"
    by (simp add: ExceptionDomain_def)
  note t = scope_round_trip [OF h1 h2 h3]
  from t c have r: "m_caught_exceptions
       (merge_propagated_in_caught_exceptions parity_domain
         (merge_caught_in_propagated_exceptions parity_domain
           (ExceptionDomain Odd Even Bottom))) = Even"
    by (simp only:)
  from h1 h2 h3 r t show ?thesis by blast
qed

text \<open>
  C8: what each transfer function leaves alone. \<^verbatim>\<open>enter_normal()\<close> sets
  \<^verbatim>\<open>_caught_exceptions\<close> to bottom and keeps the two other members;
  \<^verbatim>\<open>ignore_exceptions()\<close> sets \<^verbatim>\<open>_caught_exceptions\<close> and
  \<^verbatim>\<open>_propagated_exceptions\<close> to bottom and keeps \<^verbatim>\<open>_normal\<close>;
  \<^verbatim>\<open>throw_exception()\<close> and \<^verbatim>\<open>resume_exception()\<close> keep
  \<^verbatim>\<open>_propagated_exceptions\<close>; the two merges keep \<^verbatim>\<open>_normal\<close>. A member set to bottom
  is the result of the underlying \<^verbatim>\<open>set_to_bottom\<close> on it, a bottom value for every
  underlying domain whose \<^verbatim>\<open>set_to_bottom\<close> gives one.
\<close>

theorem transfer_functions_frame:
  "m_normal (enter_normal U d) = m_normal d
   \<and> m_propagated_exceptions (enter_normal U d) = m_propagated_exceptions d
   \<and> m_caught_exceptions (enter_normal U d) = u_set_to_bottom U (m_caught_exceptions d)
   \<and> m_normal (ignore_exceptions U d) = m_normal d
   \<and> m_caught_exceptions (ignore_exceptions U d) = u_set_to_bottom U (m_caught_exceptions d)
   \<and> m_propagated_exceptions (ignore_exceptions U d) =
       u_set_to_bottom U (m_propagated_exceptions d)
   \<and> m_propagated_exceptions (throw_exception U d) = m_propagated_exceptions d
   \<and> m_propagated_exceptions (resume_exception U d) = m_propagated_exceptions d
   \<and> m_normal (merge_propagated_in_caught_exceptions U d) = m_normal d
   \<and> m_normal (merge_caught_in_propagated_exceptions U d) = m_normal d
   \<and> (set_to_bottom_gives_bottom U \<longrightarrow>
        u_is_bottom U (m_caught_exceptions (enter_normal U d)) \<and>
        u_is_bottom U (m_caught_exceptions (ignore_exceptions U d)) \<and>
        u_is_bottom U (m_propagated_exceptions (ignore_exceptions U d)))"
proof -
  have en: "m_normal (enter_normal U d) = m_normal d
     \<and> m_propagated_exceptions (enter_normal U d) = m_propagated_exceptions d
     \<and> m_caught_exceptions (enter_normal U d) = u_set_to_bottom U (m_caught_exceptions d)"
    by (simp add: enter_normal_def)
  have ig: "m_normal (ignore_exceptions U d) = m_normal d
     \<and> m_caught_exceptions (ignore_exceptions U d) = u_set_to_bottom U (m_caught_exceptions d)
     \<and> m_propagated_exceptions (ignore_exceptions U d) =
         u_set_to_bottom U (m_propagated_exceptions d)"
    by (simp add: ignore_exceptions_def Let_def)
  have th: "m_propagated_exceptions (throw_exception U d) = m_propagated_exceptions d"
    by (simp add: throw_exception_def Let_def)
  have re: "m_propagated_exceptions (resume_exception U d) = m_propagated_exceptions d"
    by (simp add: resume_exception_def Let_def)
  have mp: "m_normal (merge_propagated_in_caught_exceptions U d) = m_normal d"
    by (simp add: merge_propagated_in_caught_exceptions_def Let_def)
  have mc: "m_normal (merge_caught_in_propagated_exceptions U d) = m_normal d"
    by (simp add: merge_caught_in_propagated_exceptions_def Let_def)
  have contract: "set_to_bottom_gives_bottom U \<longrightarrow>
        u_is_bottom U (m_caught_exceptions (enter_normal U d)) \<and>
        u_is_bottom U (m_caught_exceptions (ignore_exceptions U d)) \<and>
        u_is_bottom U (m_propagated_exceptions (ignore_exceptions U d))"
    using en ig by (simp add: set_to_bottom_gives_bottom_def)
  from en ig th re mp mc contract show ?thesis by blast
qed

theorem transfer_functions_frame_witness:
  "set_to_bottom_gives_bottom parity_domain
   \<and> m_normal (enter_normal parity_domain (ExceptionDomain Even Odd Top)) = Even
   \<and> m_propagated_exceptions (enter_normal parity_domain (ExceptionDomain Even Odd Top)) = Top
   \<and> u_is_bottom parity_domain
       (m_caught_exceptions (enter_normal parity_domain (ExceptionDomain Even Odd Top)))
   \<and> m_normal (ignore_exceptions parity_domain (ExceptionDomain Even Odd Top)) = Even
   \<and> u_is_bottom parity_domain
       (m_caught_exceptions (ignore_exceptions parity_domain (ExceptionDomain Even Odd Top)))
   \<and> u_is_bottom parity_domain
       (m_propagated_exceptions (ignore_exceptions parity_domain (ExceptionDomain Even Odd Top)))"
proof -
  have h: "set_to_bottom_gives_bottom parity_domain"
    by (rule parity_set_to_bottom_gives_bottom)
  have n: "m_normal (ExceptionDomain Even Odd Top) = Even"
    by (simp add: ExceptionDomain_def)
  have p: "m_propagated_exceptions (ExceptionDomain Even Odd Top) = Top"
    by (simp add: ExceptionDomain_def)
  note t = transfer_functions_frame [of parity_domain "ExceptionDomain Even Odd Top"]
  from t n have a: "m_normal (enter_normal parity_domain (ExceptionDomain Even Odd Top)) = Even"
    by (simp only:)
  from t p have b:
    "m_propagated_exceptions (enter_normal parity_domain (ExceptionDomain Even Odd Top)) = Top"
    by (simp only:)
  from t n have c:
    "m_normal (ignore_exceptions parity_domain (ExceptionDomain Even Odd Top)) = Even"
    by (simp only:)
  from t h have e:
    "u_is_bottom parity_domain
       (m_caught_exceptions (enter_normal parity_domain (ExceptionDomain Even Odd Top)))
     \<and> u_is_bottom parity_domain
       (m_caught_exceptions (ignore_exceptions parity_domain (ExceptionDomain Even Odd Top)))
     \<and> u_is_bottom parity_domain
       (m_propagated_exceptions (ignore_exceptions parity_domain (ExceptionDomain Even Odd Top)))"
    by blast
  from h a b c e show ?thesis by blast
qed

subsection \<open>The distinguished values and the accessors\<close>

text \<open>
  C6: \<^verbatim>\<open>top_no_exceptions()\<close> is the triple of the underlying top for \<^verbatim>\<open>_normal\<close> and
  the underlying bottom for the two other members. When the underlying bottom is not top
  (for \<^verbatim>\<open>is_top\<close>, for \<^verbatim>\<open>equals\<close>, as a value), the triple is not \<^verbatim>\<open>is_top()\<close>, is not
  \<^verbatim>\<open>equals\<close> to \<^verbatim>\<open>top()\<close> and is another value than \<^verbatim>\<open>top()\<close>; and it is \<^verbatim>\<open>leq\<close>
  \<^verbatim>\<open>top()\<close> as soon as the underlying top is above itself and above the underlying bottom.
\<close>

theorem top_no_exceptions_strictly_below_top:
  "m_normal (top_no_exceptions U) = u_top U
   \<and> m_caught_exceptions (top_no_exceptions U) = u_bottom U
   \<and> m_propagated_exceptions (top_no_exceptions U) = u_bottom U
   \<and> (\<not> u_is_top U (u_bottom U) \<longrightarrow> \<not> is_top U (top_no_exceptions U))
   \<and> (u_leq U (u_top U) (u_top U) \<and> u_leq U (u_bottom U) (u_top U) \<longrightarrow>
        leq U (top_no_exceptions U) (top_dom U))
   \<and> (\<not> u_equals U (u_bottom U) (u_top U) \<longrightarrow>
        \<not> equals U (top_no_exceptions U) (top_dom U))
   \<and> (u_bottom U \<noteq> u_top U \<longrightarrow> top_no_exceptions U \<noteq> top_dom U)"
proof -
  have members: "m_normal (top_no_exceptions U) = u_top U
     \<and> m_caught_exceptions (top_no_exceptions U) = u_bottom U
     \<and> m_propagated_exceptions (top_no_exceptions U) = u_bottom U"
    by (simp add: top_no_exceptions_def ExceptionDomain_TopNoExceptionsTag_def)
  have top_members: "m_normal (top_dom U) = u_top U
     \<and> m_caught_exceptions (top_dom U) = u_top U
     \<and> m_propagated_exceptions (top_dom U) = u_top U"
    by (simp add: top_dom_def ExceptionDomain_TopTag_def)
  have not_top: "\<not> u_is_top U (u_bottom U) \<longrightarrow> \<not> is_top U (top_no_exceptions U)"
    by (simp add: is_top_def members)
  have below: "u_leq U (u_top U) (u_top U) \<and> u_leq U (u_bottom U) (u_top U) \<longrightarrow>
        leq U (top_no_exceptions U) (top_dom U)"
    by (simp add: leq_def members top_members)
  have not_equals: "\<not> u_equals U (u_bottom U) (u_top U) \<longrightarrow>
        \<not> equals U (top_no_exceptions U) (top_dom U)"
    by (simp add: equals_def members top_members)
  have differs: "u_bottom U \<noteq> u_top U \<longrightarrow> top_no_exceptions U \<noteq> top_dom U"
  proof
    assume ne: "u_bottom U \<noteq> u_top U"
    show "top_no_exceptions U \<noteq> top_dom U"
    proof
      assume "top_no_exceptions U = top_dom U"
      then have "m_caught_exceptions (top_no_exceptions U) = m_caught_exceptions (top_dom U)"
        by simp
      with members top_members ne show False by simp
    qed
  qed
  from members not_top below not_equals differs show ?thesis by blast
qed

theorem top_no_exceptions_strictly_below_top_witness:
  "\<not> u_is_top parity_domain (u_bottom parity_domain)
   \<and> u_leq parity_domain (u_top parity_domain) (u_top parity_domain)
   \<and> u_leq parity_domain (u_bottom parity_domain) (u_top parity_domain)
   \<and> \<not> u_equals parity_domain (u_bottom parity_domain) (u_top parity_domain)
   \<and> u_bottom parity_domain \<noteq> u_top parity_domain
   \<and> \<not> is_top parity_domain (top_no_exceptions parity_domain)
   \<and> leq parity_domain (top_no_exceptions parity_domain) (top_dom parity_domain)
   \<and> \<not> equals parity_domain (top_no_exceptions parity_domain) (top_dom parity_domain)
   \<and> top_no_exceptions parity_domain \<noteq> top_dom parity_domain"
proof -
  have h1: "\<not> u_is_top parity_domain (u_bottom parity_domain)"
    by (simp add: parity_domain_def)
  have h2: "u_leq parity_domain (u_top parity_domain) (u_top parity_domain)
      \<and> u_leq parity_domain (u_bottom parity_domain) (u_top parity_domain)"
    by (simp add: parity_domain_def)
  have h3: "\<not> u_equals parity_domain (u_bottom parity_domain) (u_top parity_domain)"
    by (simp add: parity_domain_def)
  have h4: "u_bottom parity_domain \<noteq> u_top parity_domain"
    by (simp add: parity_domain_def)
  from top_no_exceptions_strictly_below_top [of parity_domain] h1 h2 h3 h4
  show ?thesis by blast
qed

text \<open>
  C9: the default constructor builds the value of \<^verbatim>\<open>top()\<close>: the three members are the
  underlying top (so it is \<^verbatim>\<open>is_top()\<close> when the underlying top is), and it is another
  value than \<^verbatim>\<open>top_no_exceptions()\<close> when the underlying top and bottom differ.
\<close>

theorem default_constructor_is_top:
  "ExceptionDomain_default U = top_dom U
   \<and> m_normal (ExceptionDomain_default U) = u_top U
   \<and> m_caught_exceptions (ExceptionDomain_default U) = u_top U
   \<and> m_propagated_exceptions (ExceptionDomain_default U) = u_top U
   \<and> (u_is_top U (u_top U) \<longrightarrow> is_top U (ExceptionDomain_default U))
   \<and> (u_top U \<noteq> u_bottom U \<longrightarrow> ExceptionDomain_default U \<noteq> top_no_exceptions U)"
proof -
  have same: "ExceptionDomain_default U = top_dom U"
    by (simp add: ExceptionDomain_default_def top_dom_def)
  have members: "m_normal (ExceptionDomain_default U) = u_top U
     \<and> m_caught_exceptions (ExceptionDomain_default U) = u_top U
     \<and> m_propagated_exceptions (ExceptionDomain_default U) = u_top U"
    by (simp add: ExceptionDomain_default_def ExceptionDomain_TopTag_def)
  have top: "u_is_top U (u_top U) \<longrightarrow> is_top U (ExceptionDomain_default U)"
    by (simp add: is_top_def members)
  have differs: "u_top U \<noteq> u_bottom U \<longrightarrow> ExceptionDomain_default U \<noteq> top_no_exceptions U"
  proof
    assume ne: "u_top U \<noteq> u_bottom U"
    show "ExceptionDomain_default U \<noteq> top_no_exceptions U"
    proof
      assume "ExceptionDomain_default U = top_no_exceptions U"
      then have "m_caught_exceptions (ExceptionDomain_default U) =
          m_caught_exceptions (top_no_exceptions U)"
        by simp
      with members ne show False
        by (simp add: top_no_exceptions_def ExceptionDomain_TopNoExceptionsTag_def)
    qed
  qed
  from same members top differs show ?thesis by blast
qed

theorem default_constructor_is_top_witness:
  "u_is_top parity_domain (u_top parity_domain)
   \<and> u_top parity_domain \<noteq> u_bottom parity_domain
   \<and> ExceptionDomain_default parity_domain = top_dom parity_domain
   \<and> is_top parity_domain (ExceptionDomain_default parity_domain)
   \<and> ExceptionDomain_default parity_domain \<noteq> top_no_exceptions parity_domain"
proof -
  have h1: "u_is_top parity_domain (u_top parity_domain)"
    by (simp add: parity_domain_def)
  have h2: "u_top parity_domain \<noteq> u_bottom parity_domain"
    by (simp add: parity_domain_def)
  from default_constructor_is_top [of parity_domain] h1 h2
  show ?thesis by blast
qed

text \<open>
  C10: the \<^verbatim>\<open>propagated_exceptions()\<close> that returns by value returns the
  \<^verbatim>\<open>_propagated_exceptions\<close> member (what the const accessor reads) and leaves the
  receiver as it was: the three members are the same after the call, the propagated one is
  not reset.
\<close>

theorem propagated_exceptions_returns_copy:
  "fst (propagated_exceptions d) = m_propagated_exceptions d
   \<and> fst (propagated_exceptions d) = propagated_exceptions_const d
   \<and> snd (propagated_exceptions d) = d
   \<and> m_normal (snd (propagated_exceptions d)) = m_normal d
   \<and> m_caught_exceptions (snd (propagated_exceptions d)) = m_caught_exceptions d
   \<and> m_propagated_exceptions (snd (propagated_exceptions d)) = m_propagated_exceptions d"
  by (simp add: propagated_exceptions_def propagated_exceptions_const_def)

end
